theory Spec2Isabelle
  imports Complex_Main "HOL-Library.Log_Nat"
begin

section \<open>Budget tracker: conversion engine, summary and entry store\<close>

text \<open>
  A shallow embedding of the logic of the component \<^verbatim>\<open>App\<close> of \<^verbatim>\<open>src/App.jsx\<close>. The
  file holds the component twice; the one modelled is the first, with currencies (lines 1
  to 713), and all line numbers below are lines of it.

  The conversion is modelled twice. \<open>convertCurrency\<close> is the function in exact arithmetic
  on currency codes such as those of \<^verbatim>\<open>CURRENCY_SYMBOLS\<close>: a number is a \<^typ>\<open>real\<close>, and
  \<^verbatim>\<open>exchangeRates[c]\<close> is \<open>map_of exchangeRates c\<close>, the own property of the rate table,
  with \<open>None\<close> for \<^verbatim>\<open>undefined\<close>. \<open>convertCurrency_js\<close> is the function with the property
  reads and the double arithmetic of JavaScript: a read finds the properties that every
  object inherits from \<^verbatim>\<open>Object.prototype\<close>, and every quotient and product is rounded to
  a double or overflows.

  Elsewhere a JavaScript number is a \<^typ>\<open>real\<close>, and the one place where the source
  tests for \<^verbatim>\<open>NaN\<close> (the result of \<^verbatim>\<open>parseFloat\<close>) has the result type
  \<^typ>\<open>real option\<close>, with \<open>None\<close> for \<^verbatim>\<open>NaN\<close>.

  Strings are \<^typ>\<open>string\<close>; \<^verbatim>\<open>===\<close> on strings is equality.

  The rate table is the object \<^verbatim>\<open>exchangeRates\<close>, given as the list of its own
  properties (currency code and rate, in key order).
\<close>

subsection \<open>Conversion engine\<close>

type_synonym rates = "(string \<times> real) list"

text \<open>\<^verbatim>\<open>Object.keys(exchangeRates)\<close>.\<close>

definition keys :: "rates \<Rightarrow> string list" where
  "keys exchangeRates = map fst exchangeRates"

text \<open>
  Truthiness of the value read from the rate table: \<^verbatim>\<open>undefined\<close> and \<^verbatim>\<open>0\<close> are falsy,
  every other number is truthy.
\<close>

fun truthy :: "real option \<Rightarrow> bool" where
  "truthy None = False"
| "truthy (Some r) = (r \<noteq> 0)"

text \<open>
  \<^verbatim>\<open>convertCurrency\<close>, lines 217 to 242. The component closes over \<^verbatim>\<open>exchangeRates\<close>,
  which is the first argument here. Both reads \<open>the (map_of exchangeRates c)\<close> stand
  behind the truthiness test of the same property, so they read a \<open>Some\<close>.
\<close>

definition convertCurrency :: "rates \<Rightarrow> real \<Rightarrow> string \<Rightarrow> string \<Rightarrow> real" where
  "convertCurrency exchangeRates amount fromCurrency toCurrency =
     (if fromCurrency = toCurrency then amount
      else if length (keys exchangeRates) = 0 then amount
      else if \<not> truthy (map_of exchangeRates fromCurrency) \<and> fromCurrency \<noteq> ''USD'' then amount
      else if \<not> truthy (map_of exchangeRates toCurrency) \<and> toCurrency \<noteq> ''USD'' then amount
      else
        let amountInUSD =
              (if fromCurrency = ''USD'' then amount
               else amount / the (map_of exchangeRates fromCurrency))
        in if toCurrency = ''USD'' then amountInUSD
           else amountInUSD * the (map_of exchangeRates toCurrency))"


subsection \<open>Entries and the summary\<close>

text \<open>
  An entry as \<^verbatim>\<open>handleSubmit\<close> builds it (lines 170 to 178). The fields carry the
  suffix \<open>_e\<close>; \<^verbatim>\<open>id\<close> is \<^verbatim>\<open>Date.now()\<close>, an integer. Entries stored by the version of the
  component without currencies have no \<^verbatim>\<open>currency\<close> property: \<open>currency_e\<close> is
  \<open>None\<close> for them.
\<close>

record entry =
  id_e :: int
  type_e :: string
  label_e :: string
  amount_e :: real
  category_e :: string
  currency_e :: "string option"
  date_e :: string

text \<open>
  \<^verbatim>\<open>entry.currency || currency\<close>: the entry's currency unless it is \<^verbatim>\<open>undefined\<close> or the
  empty string.
\<close>

definition or_default :: "string option \<Rightarrow> string \<Rightarrow> string" where
  "or_default v d = (case v of None \<Rightarrow> d | Some s \<Rightarrow> if s = [] then d else s)"

record summary_t =
  totalIncome :: real
  totalExpenses :: real
  balance :: real

text \<open>
  \<^verbatim>\<open>summary\<close>, lines 269 to 289: \<^verbatim>\<open>filter\<close> then \<^verbatim>\<open>reduce\<close> from \<open>0\<close>, which is a left
  fold. Its inputs are the dependencies of the \<^verbatim>\<open>useMemo\<close>.
\<close>

definition summary :: "entry list \<Rightarrow> string \<Rightarrow> rates \<Rightarrow> summary_t" where
  "summary entries currency exchangeRates =
     (let totalIncome =
            foldl (\<lambda>sum entry.
                let entryCurrency = or_default (currency_e entry) currency;
                    convertedAmount =
                      convertCurrency exchangeRates (amount_e entry) entryCurrency currency
                in sum + convertedAmount)
              0 (filter (\<lambda>entry. type_e entry = ''income'') entries);
          totalExpenses =
            foldl (\<lambda>sum entry.
                let entryCurrency = or_default (currency_e entry) currency;
                    convertedAmount =
                      convertCurrency exchangeRates (amount_e entry) entryCurrency currency
                in sum + convertedAmount)
              0 (filter (\<lambda>entry. type_e entry = ''expense'') entries);
          balance = totalIncome - totalExpenses
      in \<lparr>totalIncome = totalIncome, totalExpenses = totalExpenses, balance = balance\<rparr>)"


subsection \<open>Conversion with the property reads and the arithmetic of JavaScript\<close>

text \<open>
  The names of the properties of \<^verbatim>\<open>Object.prototype\<close>. The rate table is an object
  literal or the result of \<^verbatim>\<open>response.json()\<close>, so it inherits them, and a read of one
  of these names that is not an own property gives a function (for \<^verbatim>\<open>__proto__\<close>, the
  prototype object).
\<close>

definition inherited :: "string \<Rightarrow> bool" where
  "inherited c \<longleftrightarrow> c \<in> set [''constructor'', ''hasOwnProperty'', ''isPrototypeOf'',
     ''propertyIsEnumerable'', ''toLocaleString'', ''toString'', ''valueOf'', ''__proto__'',
     ''__defineGetter__'', ''__defineSetter__'', ''__lookupGetter__'', ''__lookupSetter__'']"

text \<open>
  The value of \<^verbatim>\<open>exchangeRates[c]\<close>: \<^verbatim>\<open>undefined\<close>, a rate, or an inherited function or
  object. An own property hides an inherited one.
\<close>

datatype property = Undefined | Rate real | Inherited

definition get :: "rates \<Rightarrow> string \<Rightarrow> property" where
  "get exchangeRates c =
     (case map_of exchangeRates c of
        Some r \<Rightarrow> Rate r
      | None \<Rightarrow> if inherited c then Inherited else Undefined)"

text \<open>Truthiness: \<^verbatim>\<open>undefined\<close> and \<open>0\<close> are falsy; a function or object is truthy.\<close>

fun truthy_js :: "property \<Rightarrow> bool" where
  "truthy_js Undefined = False"
| "truthy_js (Rate r) = (r \<noteq> 0)"
| "truthy_js Inherited = True"

text \<open>
  Doubles. A number is a \<^typ>\<open>real option\<close>: \<open>Some x\<close> is the finite double of value
  \<open>x\<close>, and \<open>None\<close> is any of \<^verbatim>\<open>NaN\<close>, \<^verbatim>\<open>Infinity\<close> and \<^verbatim>\<open>-Infinity\<close> (the quotient
  of one of these three by a rate and its product with a rate is again one of them, and
  so is a quotient by zero). The sign of zero is not modelled. Amounts and rates range
  over the reals; those of the implementation are the doubles among them.

  \<open>round64\<close> is the rounding of IEEE 754 binary64, to nearest with ties to even:
  \<open>exponent x\<close> is the integer \<open>e\<close> with \<open>2 ^ e \<le> \<bar>x\<bar> < 2 ^ (e + 1)\<close>, \<open>ulp x\<close> is the
  distance of the doubles around \<open>x\<close> (53 bits of precision, least exponent -1022, so
  the subnormal doubles are the multiples of \<open>2 ^ -1074\<close>), and a result of magnitude
  \<open>2 ^ 1024\<close> or more is an overflow.
\<close>

definition rne :: "real \<Rightarrow> int" where
  "rne t = (let f = \<lfloor>t\<rfloor> in
            if t - of_int f < 1/2 then f
            else if 1/2 < t - of_int f then f + 1
            else if even f then f else f + 1)"

definition exponent :: "real \<Rightarrow> int" where
  "exponent x =
     (if 1 \<le> \<bar>x\<bar> then bitlen \<lfloor>\<bar>x\<bar>\<rfloor> - 1 else - bitlen (\<lceil>1 / \<bar>x\<bar>\<rceil> - 1))"

definition ulp :: "real \<Rightarrow> real" where
  "ulp x = 2 powi (max (exponent x) (- 1022) - 52)"

definition round64 :: "real \<Rightarrow> real option" where
  "round64 x =
     (if x = 0 then Some 0
      else let y = of_int (rne (x / ulp x)) * ulp x
           in if \<bar>y\<bar> < 2 ^ 1024 then Some y else None)"

text \<open>
  \<^verbatim>\<open>amount / exchangeRates[c]\<close> and \<^verbatim>\<open>amountInUSD * exchangeRates[c]\<close>. A function or
  object and \<^verbatim>\<open>undefined\<close> are \<^verbatim>\<open>NaN\<close> as numbers, so the result is \<^verbatim>\<open>NaN\<close>.
\<close>

fun divide_js :: "real option \<Rightarrow> property \<Rightarrow> real option" where
  "divide_js (Some a) (Rate r) = (if r = 0 then None else round64 (a / r))"
| "divide_js _ _ = None"

fun times_js :: "real option \<Rightarrow> property \<Rightarrow> real option" where
  "times_js (Some a) (Rate r) = round64 (a * r)"
| "times_js _ _ = None"

text \<open>\<^verbatim>\<open>convertCurrency\<close>, lines 217 to 242, with these reads and this arithmetic.\<close>

definition convertCurrency_js :: "rates \<Rightarrow> real option \<Rightarrow> string \<Rightarrow> string \<Rightarrow> real option" where
  "convertCurrency_js exchangeRates amount fromCurrency toCurrency =
     (if fromCurrency = toCurrency then amount
      else if length (keys exchangeRates) = 0 then amount
      else if \<not> truthy_js (get exchangeRates fromCurrency) \<and> fromCurrency \<noteq> ''USD'' then amount
      else if \<not> truthy_js (get exchangeRates toCurrency) \<and> toCurrency \<noteq> ''USD'' then amount
      else
        let amountInUSD =
              (if fromCurrency = ''USD'' then amount
               else divide_js amount (get exchangeRates fromCurrency))
        in if toCurrency = ''USD'' then amountInUSD
           else times_js amountInUSD (get exchangeRates toCurrency))"

subsection \<open>Form controller and entry store\<close>

text \<open>
  \<^verbatim>\<open>String.prototype.trim\<close> removes white space and line terminators from both ends.
  A \<^typ>\<open>char\<close> is a code unit below 256; the white space among these is TAB, LF, VT, FF,
  CR, SP and NBSP.
\<close>

definition isWhiteSpace :: "char \<Rightarrow> bool" where
  "isWhiteSpace c \<longleftrightarrow> (of_char c :: nat) \<in> {9, 10, 11, 12, 13, 32, 160}"

definition trim :: "string \<Rightarrow> string" where
  "trim s = rev (dropWhile isWhiteSpace (rev (dropWhile isWhiteSpace s)))"

text \<open>
  \<^verbatim>\<open>formValues\<close>, lines 57 to 63; the fields that an entry has as well carry the suffix
  \<open>_f\<close>. The amount is the text of the input field.
\<close>

record form_values =
  type_f :: string
  label_f :: string
  amount_f :: string
  category_f :: string
  entryCurrency :: string

text \<open>
  The state of the component that the handlers of the form and of the list read and
  write: \<^verbatim>\<open>entries\<close>, \<^verbatim>\<open>editingId\<close> (\<open>None\<close> for \<^verbatim>\<open>null\<close>), \<^verbatim>\<open>formValues\<close> and the display
  \<^verbatim>\<open>currency\<close>. A functional update \<^verbatim>\<open>setEntries((prev) => ...)\<close> is applied to the
  entries of the state; handlers run one at a time. The effect of lines 81 to 87 writes
  \<^verbatim>\<open>formValues.entryCurrency\<close> only, as a change of that field of the form does.
\<close>

record app_state =
  entries :: "entry list"
  editingId :: "int option"
  formValues :: form_values
  currency :: string

text \<open>\<^verbatim>\<open>handleFormChange\<close>, lines 122 to 135: the id of the input element and its value.\<close>

definition handleFormChange :: "string \<Rightarrow> string \<Rightarrow> app_state \<Rightarrow> app_state" where
  "handleFormChange ident v s =
     (if ident = ''entryAmount'' then s\<lparr>formValues := (formValues s)\<lparr>amount_f := v\<rparr>\<rparr>
      else if ident = ''entryType'' then s\<lparr>formValues := (formValues s)\<lparr>type_f := v\<rparr>\<rparr>
      else if ident = ''entryLabel'' then s\<lparr>formValues := (formValues s)\<lparr>label_f := v\<rparr>\<rparr>
      else if ident = ''entryCategory'' then s\<lparr>formValues := (formValues s)\<lparr>category_f := v\<rparr>\<rparr>
      else if ident = ''entryCurrency'' then s\<lparr>formValues := (formValues s)\<lparr>entryCurrency := v\<rparr>\<rparr>
      else s)"

text \<open>\<^verbatim>\<open>resetForm\<close>, lines 137 to 145.\<close>

definition resetForm :: "app_state \<Rightarrow> app_state" where
  "resetForm s =
     s\<lparr>formValues :=
         \<lparr>type_f = ''income'', label_f = [], amount_f = [], category_f = [],
          entryCurrency = currency s\<rparr>\<rparr>"

text \<open>
  \<^verbatim>\<open>handleSubmit\<close>, lines 147 to 183. \<^verbatim>\<open>parseFloat\<close> is a parameter: a function from
  the text to the number it parses as, \<open>None\<close> for \<^verbatim>\<open>NaN\<close>. \<open>now\<close> is \<^verbatim>\<open>Date.now()\<close> and
  \<open>isoNow\<close> is \<^verbatim>\<open>new Date().toISOString()\<close>. An early \<^verbatim>\<open>return\<close> leaves the state as it
  is. The spread \<^verbatim>\<open>...entry\<close> keeps the id and the date of the edited entry.
\<close>

definition handleSubmit ::
  "(string \<Rightarrow> real option) \<Rightarrow> int \<Rightarrow> string \<Rightarrow> app_state \<Rightarrow> app_state" where
  "handleSubmit parseFloat now isoNow s =
     (case parseFloat (amount_f (formValues s)) of
        None \<Rightarrow> s
      | Some amountNumber \<Rightarrow>
          if amountNumber < 0 then s
          else if trim (label_f (formValues s)) = [] \<or> category_f (formValues s) = [] then s
          else
            (case editingId s of
               Some editing \<Rightarrow>
                 resetForm
                   (s\<lparr>entries :=
                        map (\<lambda>entry.
                            if id_e entry = editing
                            then entry\<lparr>type_e := type_f (formValues s),
                                       label_e := trim (label_f (formValues s)),
                                       amount_e := amountNumber,
                                       category_e := category_f (formValues s),
                                       currency_e := Some (entryCurrency (formValues s))\<rparr>
                            else entry)
                          (entries s),
                      editingId := None\<rparr>)
             | None \<Rightarrow>
                 let newEntry =
                       \<lparr>id_e = now,
                        type_e = type_f (formValues s),
                        label_e = trim (label_f (formValues s)),
                        amount_e = amountNumber,
                        category_e = category_f (formValues s),
                        currency_e = Some (entryCurrency (formValues s)),
                        date_e = isoNow\<rparr>
                 in resetForm (s\<lparr>entries := entries s @ [newEntry]\<rparr>)))"

text \<open>
  \<^verbatim>\<open>handleEditEntry\<close>, lines 185 to 201 (the scrolling apart). \<open>toString\<close> is
  \<^verbatim>\<open>String\<close> on a number, a parameter.
\<close>

definition handleEditEntry :: "(real \<Rightarrow> string) \<Rightarrow> int \<Rightarrow> app_state \<Rightarrow> app_state" where
  "handleEditEntry toString ident s =
     (case find (\<lambda>e. id_e e = ident) (entries s) of
        None \<Rightarrow> s
      | Some entry \<Rightarrow>
          s\<lparr>formValues :=
              \<lparr>type_f = type_e entry,
               label_f = label_e entry,
               amount_f = toString (amount_e entry),
               category_f = category_e entry,
               entryCurrency = or_default (currency_e entry) (currency s)\<rparr>,
            editingId := Some ident\<rparr>)"

text \<open>\<^verbatim>\<open>handleCancelEdit\<close>, lines 203 to 206.\<close>

definition handleCancelEdit :: "app_state \<Rightarrow> app_state" where
  "handleCancelEdit s = resetForm (s\<lparr>editingId := None\<rparr>)"

text \<open>
  \<^verbatim>\<open>handleDeleteEntry\<close>, lines 208 to 213. \<open>confirmed\<close> is the answer of
  \<^verbatim>\<open>window.confirm\<close>.
\<close>

definition handleDeleteEntry :: "bool \<Rightarrow> int \<Rightarrow> app_state \<Rightarrow> app_state" where
  "handleDeleteEntry confirmed ident s =
     (if confirmed then s\<lparr>entries := filter (\<lambda>entry. id_e entry \<noteq> ident) (entries s)\<rparr>
      else s)"

text \<open>The invariant of the data model on one entry.\<close>

definition entry_ok :: "entry \<Rightarrow> bool" where
  "entry_ok e \<longleftrightarrow> 0 \<le> amount_e e \<and> trim (label_e e) \<noteq> [] \<and> category_e e \<noteq> []"

text \<open>
  The operations of the user interface on the state, and a run of them. A submission
  carries the time at which it happens, a deletion the answer to the confirmation
  dialogue.
\<close>

datatype event =
    FormChange string string
  | Submit int string
  | EditEntry int
  | CancelEdit
  | DeleteEntry bool int

fun step :: "(string \<Rightarrow> real option) \<Rightarrow> (real \<Rightarrow> string) \<Rightarrow> app_state \<Rightarrow> event \<Rightarrow> app_state" where
  "step parseFloat toString s (FormChange ident v) = handleFormChange ident v s"
| "step parseFloat toString s (Submit now isoNow) = handleSubmit parseFloat now isoNow s"
| "step parseFloat toString s (EditEntry ident) = handleEditEntry toString ident s"
| "step parseFloat toString s CancelEdit = handleCancelEdit s"
| "step parseFloat toString s (DeleteEntry confirmed ident) = handleDeleteEntry confirmed ident s"

definition run :: "(string \<Rightarrow> real option) \<Rightarrow> (real \<Rightarrow> string) \<Rightarrow> app_state \<Rightarrow> event list \<Rightarrow> app_state" where
  "run parseFloat toString s evs = foldl (step parseFloat toString) s evs"

subsection \<open>Sample data\<close>

text \<open>
  The entries of the example of the specification, a state that is editing the second of
  them, and a session of the user on it. \<open>sample_parseFloat\<close> and \<open>sample_toString\<close> are
  \<^verbatim>\<open>parseFloat\<close> and \<^verbatim>\<open>String\<close> on the texts and numbers of the session, and are read
  nowhere else.
\<close>

definition salary :: entry where
  "salary = \<lparr>id_e = 1, type_e = ''income'', label_e = ''Salary'', amount_e = 1000,
     category_e = ''salary'', currency_e = Some ''USD'', date_e = ''2024-01-01T09:00:00.000Z''\<rparr>"

definition groceries :: entry where
  "groceries = \<lparr>id_e = 2, type_e = ''expense'', label_e = ''Groceries'', amount_e = 200,
     category_e = ''food'', currency_e = Some ''EUR'', date_e = ''2024-01-02T09:00:00.000Z''\<rparr>"

definition sample_state :: app_state where
  "sample_state =
     \<lparr>entries = [salary, groceries],
      editingId = Some 2,
      formValues = \<lparr>type_f = ''expense'', label_f = '' Lunch  '', amount_f = ''12.5'',
                    category_f = ''food'', entryCurrency = ''GBP''\<rparr>,
      currency = ''USD''\<rparr>"

definition sample_parseFloat :: "string \<Rightarrow> real option" where
  "sample_parseFloat =
     the \<circ> map_of [(''12.5'', Some (25/2)), (''200'', Some 200), (''-3'', Some (-3)),
                    (''abc'', None), ([], None)]"

definition sample_toString :: "real \<Rightarrow> string" where
  "sample_toString = the \<circ> map_of [(1000, ''1000''), (200, ''200'')]"

definition session :: "event list" where
  "session =
     [CancelEdit,
      FormChange ''entryType'' ''expense'',
      FormChange ''entryLabel'' '' Lunch  '',
      FormChange ''entryAmount'' ''12.5'',
      FormChange ''entryCategory'' ''food'',
      Submit 1700000000000 ''2023-11-14T22:13:20.000Z'',
      EditEntry 2,
      FormChange ''entryAmount'' ''-3'',
      Submit 1700000000001 ''2023-11-14T22:13:20.001Z'',
      FormChange ''entryAmount'' ''12.5'',
      Submit 1700000000002 ''2023-11-14T22:13:20.002Z'',
      DeleteEntry True 1]"

subsection \<open>Conversion: same currency, missing rates\<close>

text \<open>
  Claim C1. Converting an amount from a currency to the same currency returns the amount
  itself, whatever the rate table holds: an empty table, a table without the currency, a
  table where its rate is zero.
\<close>

theorem convertCurrency_same_currency:
  "convertCurrency exchangeRates amount c c = amount"
  by (simp add: convertCurrency_def)

theorem convertCurrency_same_currency_witness:
  "convertCurrency [] 100 ''EUR'' ''EUR'' = 100
   \<and> convertCurrency [(''USD'', 1), (''EUR'', 0)] 100 ''EUR'' ''EUR'' = 100"
  using convertCurrency_same_currency [of "[]" 100 "''EUR''"]
    convertCurrency_same_currency [of "[(''USD'', 1), (''EUR'', 0)]" 100 "''EUR''"]
  by (rule conjI)

text \<open>
  Claim C2, as stated, fails for a currency that is named like a property of
  \<^verbatim>\<open>Object.prototype\<close>. \<open>toString\<close> has no rate entry and is not USD, but
  \<^verbatim>\<open>exchangeRates['toString']\<close> is a function, which is truthy: the guard of line 222 lets
  it pass, line 232 divides by it, and the result is \<^verbatim>\<open>NaN\<close>, not the amount.
\<close>

theorem convertCurrency_inherited_counterexample:
  "map_of [(''USD'', 1), (''EUR'', 9/10 :: real)] ''toString'' = None
   \<and> ''toString'' \<noteq> ''USD''
   \<and> ''toString'' \<noteq> ''EUR''
   \<and> convertCurrency_js [(''USD'', 1), (''EUR'', 9/10)] (Some 100) ''toString'' ''EUR'' = None
   \<and> convertCurrency_js [(''USD'', 1), (''EUR'', 9/10)] (Some 100) ''toString'' ''EUR''
       \<noteq> Some 100"
  by (simp add: convertCurrency_js_def keys_def get_def inherited_def)

text \<open>
  Claim C2, amended. When the rate table is empty, or the source currency has no rate
  entry, is not USD and does not name a property of \<^verbatim>\<open>Object.prototype\<close>, or the target
  currency has no rate entry, is not USD and does not name such a property, the
  conversion returns the amount unchanged, whatever number the amount is. The function
  is total: there is no error to raise. (The claim asks for distinct currencies; for equal
  ones the result is the amount as well.)
\<close>

theorem convertCurrency_js_missing_rate:
  assumes "exchangeRates = []
         \<or> (map_of exchangeRates fromCurrency = None \<and> fromCurrency \<noteq> ''USD''
             \<and> \<not> inherited fromCurrency)
         \<or> (map_of exchangeRates toCurrency = None \<and> toCurrency \<noteq> ''USD''
             \<and> \<not> inherited toCurrency)"
  shows "convertCurrency_js exchangeRates amount fromCurrency toCurrency = amount"
  using assms by (auto simp: convertCurrency_js_def keys_def get_def)

theorem convertCurrency_js_missing_rate_witness:
  "convertCurrency_js [] (Some 100) ''EUR'' ''GBP'' = Some 100
   \<and> map_of [(''USD'', 1), (''GBP'', 4/5 :: real)] ''EUR'' = None
   \<and> \<not> inherited ''EUR''
   \<and> convertCurrency_js [(''USD'', 1), (''GBP'', 4/5)] (Some 100) ''EUR'' ''GBP'' = Some 100
   \<and> map_of [(''USD'', 1), (''EUR'', 9/10 :: real)] ''GBP'' = None
   \<and> \<not> inherited ''GBP''
   \<and> convertCurrency_js [(''USD'', 1), (''EUR'', 9/10)] (Some 100) ''EUR'' ''GBP'' = Some 100"
proof -
  have "convertCurrency_js [] (Some 100) ''EUR'' ''GBP'' = Some 100"
    by (rule convertCurrency_js_missing_rate) simp
  moreover have src: "map_of [(''USD'', 1), (''GBP'', 4/5 :: real)] ''EUR'' = None"
    and eur: "\<not> inherited ''EUR''"
    by (simp_all add: inherited_def)
  then have "convertCurrency_js [(''USD'', 1), (''GBP'', 4/5)] (Some 100) ''EUR'' ''GBP'' = Some 100"
    by (intro convertCurrency_js_missing_rate disjI2 disjI1) simp
  moreover have tgt: "map_of [(''USD'', 1), (''EUR'', 9/10 :: real)] ''GBP'' = None"
    and gbp: "\<not> inherited ''GBP''"
    by (simp_all add: inherited_def)
  then have "convertCurrency_js [(''USD'', 1), (''EUR'', 9/10)] (Some 100) ''EUR'' ''GBP'' = Some 100"
    by (intro convertCurrency_js_missing_rate disjI2) simp
  ultimately show ?thesis
    using src eur tgt gbp by blast
qed

subsection \<open>Conversion: the pivot through the base currency\<close>





subsection \<open>Conversion: the round trip through the base currency\<close>

lemma rne_error: "\<bar>of_int (rne t) - t\<bar> \<le> 1/2"
  unfolding rne_def Let_def by (auto simp: abs_le_iff)

lemma exponent_bounds:
  assumes "x \<noteq> 0"
  shows "2 powi exponent x \<le> \<bar>x\<bar> \<and> \<bar>x\<bar> < 2 powi (exponent x + 1)"
proof (cases "1 \<le> \<bar>x\<bar>")
  case True
  define n where "n = \<lfloor>\<bar>x\<bar>\<rfloor>"
  from True have "0 < n"
    unfolding n_def by linarith
  then have b: "2 ^ nat (bitlen n - 1) \<le> n" "n < 2 ^ nat (bitlen n)" and one: "1 \<le> bitlen n"
    using bitlen_bounds [of n] by (auto simp: bitlen_alt_def)
  have e: "exponent x = bitlen n - 1"
    using True by (simp add: exponent_def n_def)
  have "2 powi (bitlen n - 1) = (2::real) ^ nat (bitlen n - 1)"
    using one by (simp add: power_int_def)
  also have "\<dots> = of_int (2 ^ nat (bitlen n - 1))"
    by simp
  also have "\<dots> \<le> of_int n"
    using b(1) by (simp only: of_int_le_iff)
  also have "\<dots> \<le> \<bar>x\<bar>"
    unfolding n_def by simp
  finally have lower: "2 powi (bitlen n - 1) \<le> \<bar>x\<bar>" .
  from b(2) have "n + 1 \<le> 2 ^ nat (bitlen n)"
    by simp
  then have "of_int (n + 1) \<le> (of_int (2 ^ nat (bitlen n)) :: real)"
    by (simp only: of_int_le_iff)
  moreover have "\<bar>x\<bar> < of_int (n + 1)"
    unfolding n_def by simp
  ultimately have "\<bar>x\<bar> < 2 ^ nat (bitlen n)"
    by simp
  also have "(2::real) ^ nat (bitlen n) = 2 powi (bitlen n - 1 + 1)"
    using one by (simp add: power_int_def)
  finally show ?thesis
    using lower by (simp add: e)
next
  case False
  define y where "y = 1 / \<bar>x\<bar>"
  define m where "m = \<lceil>y\<rceil> - 1"
  from assms False have y1: "1 < y" and ypos: "0 < y" and x: "\<bar>x\<bar> = 1 / y"
    by (simp_all add: y_def)
  then have "0 < m"
    unfolding m_def by linarith
  then have b: "2 ^ nat (bitlen m - 1) \<le> m" "m < 2 ^ nat (bitlen m)" and one: "1 \<le> bitlen m"
    using bitlen_bounds [of m] by (auto simp: bitlen_alt_def)
  have e: "exponent x = - bitlen m"
    using False by (simp add: exponent_def m_def y_def)
  have my: "of_int m < y" "y \<le> of_int m + 1"
    unfolding m_def by linarith+
  from b(2) have "m + 1 \<le> 2 ^ nat (bitlen m)"
    by simp
  then have "of_int (m + 1) \<le> (of_int (2 ^ nat (bitlen m)) :: real)"
    by (simp only: of_int_le_iff)
  with my(2) have "y \<le> 2 ^ nat (bitlen m)"
    by simp
  then have "1 / 2 ^ nat (bitlen m) \<le> 1 / y"
    using ypos by (simp add: frac_le)
  moreover have "2 powi (- bitlen m) = 1 / (2::real) ^ nat (bitlen m)"
    using one by (simp add: power_int_def field_simps)
  ultimately have lower: "2 powi (- bitlen m) \<le> \<bar>x\<bar>"
    by (simp add: x)
  from b(1) have "(2::real) ^ nat (bitlen m - 1) \<le> of_int m"
    by (metis of_int_le_iff of_int_numeral of_int_power)
  with my(1) have "2 ^ nat (bitlen m - 1) < y"
    by linarith
  then have "1 / y < 1 / 2 ^ nat (bitlen m - 1)"
    by (simp add: frac_less2)
  moreover have "2 powi (- bitlen m + 1) = 1 / (2::real) ^ nat (bitlen m - 1)"
    using one by (simp add: power_int_def field_simps)
  ultimately have "\<bar>x\<bar> < 2 powi (- bitlen m + 1)"
    by (simp add: x)
  with lower show ?thesis
    by (simp add: e)
qed

lemma exponent_eq:
  assumes "2 powi e \<le> \<bar>x\<bar>" and "\<bar>x\<bar> < 2 powi (e + 1)"
  shows "exponent x = e"
proof -
  from assms(1) have "0 < \<bar>x\<bar>"
    by (rule less_le_trans [rotated]) simp
  then have "x \<noteq> 0" by simp
  then have lo: "2 powi exponent x \<le> \<bar>x\<bar>" and hi: "\<bar>x\<bar> < 2 powi (exponent x + 1)"
    using exponent_bounds by blast+
  have "\<not> exponent x < e"
  proof
    assume "exponent x < e"
    then have "exponent x + 1 \<le> e" by simp
    then have "(2::real) powi (exponent x + 1) \<le> 2 powi e"
      by (rule power_int_increasing) simp
    with assms(1) hi show False by linarith
  qed
  moreover have "\<not> e < exponent x"
  proof
    assume "e < exponent x"
    then have "e + 1 \<le> exponent x" by simp
    then have "(2::real) powi (e + 1) \<le> 2 powi exponent x"
      by (rule power_int_increasing) simp
    with assms(2) lo show False by linarith
  qed
  ultimately show ?thesis by simp
qed

lemma round64_error:
  assumes "x = 0 \<or> 2 powi (- 1022) \<le> \<bar>x\<bar>" and "round64 x = Some y"
  shows "\<bar>y - x\<bar> \<le> \<bar>x\<bar> / 2 ^ 53"
proof (cases "x = 0")
  case True
  with assms(2) show ?thesis by (simp add: round64_def)
next
  case False
  define e where "e = exponent x"
  from False assms(1) have low: "2 powi (- 1022) \<le> \<bar>x\<bar>" by simp
  from False have e_le: "2 powi e \<le> \<bar>x\<bar>" and e_gt: "\<bar>x\<bar> < 2 powi (e + 1)"
    unfolding e_def using exponent_bounds by blast+
  have "- 1022 \<le> e"
  proof (rule ccontr)
    assume "\<not> - 1022 \<le> e"
    then have "e + 1 \<le> - 1022" by simp
    then have "(2::real) powi (e + 1) \<le> 2 powi (- 1022)"
      by (rule power_int_increasing) simp
    with low e_gt show False by linarith
  qed
  then have "max e (- 1022) = e"
    by (rule max_absorb1)
  moreover have "ulp x = 2 powi (max e (- 1022) - 52)"
    by (simp only: ulp_def e_def)
  ultimately have ulp: "ulp x = 2 powi (e - 52)"
    by (simp only:)
  have ulp_pos: "0 < ulp x"
    by (simp add: ulp)
  from assms(2) False have y: "y = of_int (rne (x / ulp x)) * ulp x"
    by (simp add: round64_def Let_def split: if_splits)
  have "y - x = (of_int (rne (x / ulp x)) - x / ulp x) * ulp x"
    using ulp_pos by (simp add: y field_simps)
  then have "\<bar>y - x\<bar> = \<bar>of_int (rne (x / ulp x)) - x / ulp x\<bar> * ulp x"
    using ulp_pos by (simp add: abs_mult)
  also have "\<dots> \<le> 1/2 * ulp x"
    using rne_error [of "x / ulp x"] ulp_pos by (intro mult_right_mono) simp_all
  also have "\<dots> = 2 powi e / 2 ^ 53"
    by (simp add: ulp power_int_diff)
  also have "\<dots> \<le> \<bar>x\<bar> / 2 ^ 53"
    using e_le by (simp add: divide_right_mono)
  finally show ?thesis .
qed

lemma round64_normal:
  assumes "2 powi e \<le> \<bar>x\<bar>" and "\<bar>x\<bar> < 2 powi (e + 1)" and "- 1022 \<le> e"
  shows "round64 x =
     (let y = of_int (rne (x / 2 powi (e - 52))) * 2 powi (e - 52)
      in if \<bar>y\<bar> < 2 ^ 1024 then Some y else None)"
proof -
  from assms(1) have "0 < \<bar>x\<bar>"
    by (rule less_le_trans [rotated]) simp
  then have "x \<noteq> 0" by simp
  moreover from assms(1,2) have "exponent x = e"
    by (rule exponent_eq)
  moreover from assms(3) have "max e (- 1022) = e"
    by (rule max_absorb1)
  ultimately show ?thesis
    by (simp add: round64_def ulp_def)
qed

lemma round64_subnormal:
  assumes "x \<noteq> 0" and "\<bar>x\<bar> < 2 powi (- 1022)"
  shows "round64 x = Some (of_int (rne (x / 2 powi (- 1074))) * 2 powi (- 1074))"
proof -
  from assms(1) have e_le: "2 powi exponent x \<le> \<bar>x\<bar>"
    using exponent_bounds by blast
  have "exponent x \<le> - 1022"
  proof (rule ccontr)
    assume "\<not> exponent x \<le> - 1022"
    then have "- 1022 \<le> exponent x" by simp
    then have "(2::real) powi (- 1022) \<le> 2 powi exponent x"
      by (rule power_int_increasing) simp
    with e_le assms(2) show False by linarith
  qed
  then have ulp: "ulp x = 2 powi (- 1074)"
    by (simp add: ulp_def max_absorb2)
  define u where "u = (2::real) powi (- 1074)"
  have u_pos: "0 < u"
    by (simp add: u_def)
  have "\<bar>x / u\<bar> = \<bar>x\<bar> / u"
    using u_pos by (simp add: abs_divide)
  also have "\<dots> < 2 powi (- 1022) / u"
    using assms(2) u_pos by (rule divide_strict_right_mono)
  also have "\<dots> = 2 powi 52"
    by (simp add: u_def power_int_diff [symmetric])
  finally have "\<bar>x / u\<bar> < 2 powi 52" .
  then have "\<bar>real_of_int (rne (x / u))\<bar> \<le> 2 powi 52 + 1/2"
    using rne_error [of "x / u"] by linarith
  then have "\<bar>real_of_int (rne (x / u))\<bar> * u \<le> (2 powi 52 + 1/2) * u"
    using u_pos by (intro mult_right_mono) simp_all
  also have "(2 powi 52 + 1/2) * u < (2::real) ^ 1024"
    by (simp add: u_def power_int_minus field_simps)
  finally have "\<bar>real_of_int (rne (x / u)) * u\<bar> < 2 ^ 1024"
    using u_pos by (simp add: abs_mult)
  then show ?thesis
    using assms(1) by (simp add: round64_def ulp Let_def u_def)
qed

lemma round64_pow1023: "round64 (2 ^ 1023) = Some (2 ^ 1023)"
  by (subst round64_normal [where e = 1023]) (simp_all add: rne_def)

lemma round64_pow1024: "round64 (2 ^ 1024) = None"
  by (subst round64_normal [where e = 1024]) (simp_all add: rne_def)

lemma round64_smallest: "round64 (1 / 2 ^ 1074) = Some (1 / 2 ^ 1074)"
  by (subst round64_subnormal) (simp_all add: rne_def power_int_minus field_simps)

lemma round64_underflow: "round64 (1 / 2 ^ 1074 / 4) = Some 0"
  by (subst round64_subnormal) (simp_all add: rne_def power_int_minus field_simps)

text \<open>
  Claim C4, as stated, fails in the arithmetic of the implementation where a conversion
  leaves the range of the doubles. At the rate EUR = 0.5 the amount \<open>2 ^ 1023\<close> (a
  double) converts to \<open>2 ^ 1024\<close> USD, which overflows to \<^verbatim>\<open>Infinity\<close>, and the way back
  gives \<^verbatim>\<open>Infinity\<close>. At the rate JPY = 4 the amount \<open>2 ^ -1074\<close> (the least positive
  double) converts to \<open>2 ^ -1076\<close> USD, which rounds to \<open>0\<close>, and the way back gives \<open>0\<close>:
  the relative error is 1.
\<close>

theorem convertCurrency_overflow_counterexample:
  "map_of [(''USD'', 1), (''EUR'', 1/2), (''JPY'', 4 :: real)] ''EUR'' = Some (1/2)
   \<and> round64 (2 ^ 1023) = Some (2 ^ 1023)
   \<and> convertCurrency_js [(''USD'', 1), (''EUR'', 1/2), (''JPY'', 4)] (Some (2 ^ 1023))
        ''EUR'' ''USD'' = None
   \<and> convertCurrency_js [(''USD'', 1), (''EUR'', 1/2), (''JPY'', 4)] None ''USD'' ''EUR'' = None
   \<and> map_of [(''USD'', 1), (''EUR'', 1/2), (''JPY'', 4 :: real)] ''JPY'' = Some 4
   \<and> round64 (1 / 2 ^ 1074) = Some (1 / 2 ^ 1074)
   \<and> convertCurrency_js [(''USD'', 1), (''EUR'', 1/2), (''JPY'', 4)] (Some (1 / 2 ^ 1074))
        ''JPY'' ''USD'' = Some 0
   \<and> convertCurrency_js [(''USD'', 1), (''EUR'', 1/2), (''JPY'', 4)] (Some 0) ''USD'' ''JPY''
       = Some 0"
proof -
  let ?R = "[(''USD'', 1), (''EUR'', 1/2), (''JPY'', 4 :: real)]"
  have eur: "map_of ?R ''EUR'' = Some (1/2)" and jpy: "map_of ?R ''JPY'' = Some 4"
    by simp_all
  have "convertCurrency_js ?R (Some a) ''EUR'' ''USD'' = round64 (a / (1/2))" for a
    by (simp add: convertCurrency_js_def keys_def get_def)
  then have "convertCurrency_js ?R (Some (2 ^ 1023)) ''EUR'' ''USD'' = round64 (2 ^ 1023 / (1/2))" .
  also have "round64 (2 ^ 1023 / (1/2)) = round64 (2 ^ 1024)"
    by simp
  also note round64_pow1024
  finally have over: "convertCurrency_js ?R (Some (2 ^ 1023)) ''EUR'' ''USD'' = None" .
  have over': "convertCurrency_js ?R None ''USD'' ''EUR'' = None"
    by (simp add: convertCurrency_js_def keys_def get_def)
  have "convertCurrency_js ?R (Some a) ''JPY'' ''USD'' = round64 (a / 4)" for a
    by (simp add: convertCurrency_js_def keys_def get_def)
  then have "convertCurrency_js ?R (Some (1 / 2 ^ 1074)) ''JPY'' ''USD'' = round64 (1 / 2 ^ 1074 / 4)" .
  also note round64_underflow
  finally have under: "convertCurrency_js ?R (Some (1 / 2 ^ 1074)) ''JPY'' ''USD'' = Some 0" .
  have under': "convertCurrency_js ?R (Some 0) ''USD'' ''JPY'' = Some 0"
    by (simp add: convertCurrency_js_def keys_def get_def round64_def)
  from eur round64_pow1023 over over' jpy round64_smallest under under' show ?thesis
    by (intro conjI)
qed

lemma round_trip_js:
  assumes there: "convertCurrency_js exchangeRates (Some a) c ''USD'' = Some q"
    and again: "convertCurrency_js exchangeRates (Some q) ''USD'' c = Some p"
    and normal: "\<forall>r. c \<noteq> ''USD'' \<longrightarrow> map_of exchangeRates c = Some r \<longrightarrow>
            (a / r = 0 \<or> 2 powi (- 1022) \<le> \<bar>a / r\<bar>) \<and> (q * r = 0 \<or> 2 powi (- 1022) \<le> \<bar>q * r\<bar>)"
  shows "\<bar>p - a\<bar> \<le> (2 / 2 ^ 53 + 1 / 2 ^ 106) * \<bar>a\<bar>"
proof (cases "c \<noteq> ''USD'' \<and> exchangeRates \<noteq> [] \<and> truthy_js (get exchangeRates c)")
  case False
  then have "convertCurrency_js exchangeRates x c ''USD'' = x"
    and "convertCurrency_js exchangeRates x ''USD'' c = x" for x
    by (auto simp: convertCurrency_js_def keys_def)
  with there again have "q = a" and "p = q"
    by simp_all
  then show ?thesis by simp
next
  case True
  show ?thesis
  proof (cases "get exchangeRates c")
    case Undefined
    with True show ?thesis by simp
  next
    case Inherited
    with True there show ?thesis
      by (simp add: convertCurrency_js_def keys_def)
  next
    case (Rate r)
    with True have r: "r \<noteq> 0" by simp
    from True have ne: "c \<noteq> ''USD''" "''USD'' \<noteq> c" "exchangeRates \<noteq> []"
      by auto
    from Rate have own: "map_of exchangeRates c = Some r"
      by (simp add: get_def split: option.splits if_splits)
    from ne Rate r there have q: "round64 (a / r) = Some q"
      by (simp add: convertCurrency_js_def keys_def)
    from ne Rate r again have p: "round64 (q * r) = Some p"
      by (simp add: convertCurrency_js_def keys_def)
    from normal ne own have "a / r = 0 \<or> 2 powi (- 1022) \<le> \<bar>a / r\<bar>"
      and "q * r = 0 \<or> 2 powi (- 1022) \<le> \<bar>q * r\<bar>"
      by blast+
    with q p have eq: "\<bar>q - a / r\<bar> \<le> \<bar>a / r\<bar> / 2 ^ 53" and ep: "\<bar>p - q * r\<bar> \<le> \<bar>q * r\<bar> / 2 ^ 53"
      by (simp_all only: round64_error)
    have "\<bar>q * r - a\<bar> = \<bar>q - a / r\<bar> * \<bar>r\<bar>"
      using r by (simp add: abs_mult [symmetric] field_simps)
    also have "\<dots> \<le> \<bar>a / r\<bar> / 2 ^ 53 * \<bar>r\<bar>"
      using eq by (intro mult_right_mono) simp_all
    also have "\<dots> = \<bar>a\<bar> / 2 ^ 53"
      using r by (simp add: abs_divide)
    finally have e1: "\<bar>q * r - a\<bar> \<le> \<bar>a\<bar> / 2 ^ 53" .
    then have "\<bar>q * r\<bar> \<le> \<bar>a\<bar> + \<bar>a\<bar> / 2 ^ 53"
      by linarith
    then have "\<bar>q * r\<bar> / 2 ^ 53 \<le> (\<bar>a\<bar> + \<bar>a\<bar> / 2 ^ 53) / 2 ^ 53"
      by (simp add: divide_right_mono)
    with ep have e2: "\<bar>p - q * r\<bar> \<le> (\<bar>a\<bar> + \<bar>a\<bar> / 2 ^ 53) / 2 ^ 53"
      by linarith
    have "\<bar>p - a\<bar> \<le> \<bar>p - q * r\<bar> + \<bar>q * r - a\<bar>"
      by linarith
    also have "\<dots> \<le> (\<bar>a\<bar> + \<bar>a\<bar> / 2 ^ 53) / 2 ^ 53 + \<bar>a\<bar> / 2 ^ 53"
      using e1 e2 by linarith
    also have "\<dots> = (2 / 2 ^ 53 + 1 / 2 ^ 106) * \<bar>a\<bar>"
      by (simp add: field_simps)
    finally show ?thesis .
  qed
qed


lemma round_trip_exact:
  "convertCurrency exchangeRates (convertCurrency exchangeRates a c ''USD'') ''USD'' c = a"
proof (cases "c = ''USD'' \<or> length (keys exchangeRates) = 0")
  case True
  then show ?thesis by (auto simp: convertCurrency_def)
next
  case False
  show ?thesis
  proof (cases "map_of exchangeRates c")
    case None
    with False show ?thesis by (simp add: convertCurrency_def)
  next
    case (Some r)
    with False show ?thesis by (simp add: convertCurrency_def Let_def)
  qed
qed

text \<open>
  Claim C4, amended. Converting an amount from a currency to USD and the result back to
  the same currency gives the amount again in exact arithmetic, for every rate table. In
  the arithmetic of the implementation, when both conversions give finite numbers \<open>q\<close>
  and \<open>p\<close> (no overflow) and, for a currency other than USD with a rate \<open>r\<close>, the quotient
  \<open>a / r\<close> and the product \<open>q * r\<close> are zero or of magnitude at least \<open>2 ^ -1022\<close> (no
  underflow), the result \<open>p\<close> is the amount up to the relative error \<open>2 u + u\<^sup>2\<close> of two
  roundings, \<open>u = 2 ^ -53\<close>.
\<close>

theorem convertCurrency_round_trip_tolerance:
  "convertCurrency exchangeRates (convertCurrency exchangeRates a c ''USD'') ''USD'' c = a
   \<and> (convertCurrency_js exchangeRates (Some a) c ''USD'' = Some q
      \<and> convertCurrency_js exchangeRates (Some q) ''USD'' c = Some p
      \<and> (\<forall>r. c \<noteq> ''USD'' \<longrightarrow> map_of exchangeRates c = Some r \<longrightarrow>
            (a / r = 0 \<or> 2 powi (- 1022) \<le> \<bar>a / r\<bar>)
            \<and> (q * r = 0 \<or> 2 powi (- 1022) \<le> \<bar>q * r\<bar>))
      \<longrightarrow> \<bar>p - a\<bar> \<le> (2 / 2 ^ 53 + 1 / 2 ^ 106) * \<bar>a\<bar>)"
  using round_trip_exact round_trip_js by blast

lemma round64_49th: "round64 (1 / 49) = Some (5882252574524729 / 2 ^ 58)"
  by (subst round64_normal [where e = "- 6"])
    (simp_all add: rne_def power_int_minus field_simps)

lemma round64_49th_times: "round64 (5882252574524729 / 2 ^ 58 * 49) = Some (1 - 1 / 2 ^ 53)"
  by (subst round64_normal [where e = "- 1"])
    (simp_all add: rne_def power_int_minus field_simps)

theorem convertCurrency_round_trip_tolerance_witness:
  "convertCurrency_js [(''USD'', 1), (''INR'', 49)] (Some 1) ''INR'' ''USD''
     = Some (5882252574524729 / 2 ^ 58)
   \<and> convertCurrency_js [(''USD'', 1), (''INR'', 49)] (Some (5882252574524729 / 2 ^ 58))
       ''USD'' ''INR'' = Some (1 - 1 / 2 ^ 53)
   \<and> \<bar>(1 - 1 / 2 ^ 53) - 1\<bar> \<le> (2 / 2 ^ 53 + 1 / 2 ^ 106) * \<bar>1 :: real\<bar>
   \<and> convertCurrency [(''USD'', 1), (''INR'', 49)]
        (convertCurrency [(''USD'', 1), (''INR'', 49)] 1 ''INR'' ''USD'') ''USD'' ''INR'' = 1"
proof -
  let ?R = "[(''USD'', 1), (''INR'', 49 :: real)]"
  let ?q = "5882252574524729 / 2 ^ 58 :: real"
  let ?p = "1 - 1 / 2 ^ 53 :: real"
  note inst = convertCurrency_round_trip_tolerance [of ?R 1 "''INR''" ?q ?p]
  have "convertCurrency_js ?R (Some a) ''INR'' ''USD'' = round64 (a / 49)" for a
    by (simp add: convertCurrency_js_def keys_def get_def)
  then have "convertCurrency_js ?R (Some 1) ''INR'' ''USD'' = round64 (1 / 49)" .
  also note round64_49th
  finally have there: "convertCurrency_js ?R (Some 1) ''INR'' ''USD'' = Some ?q" .
  have "convertCurrency_js ?R (Some a) ''USD'' ''INR'' = round64 (a * 49)" for a
    by (simp add: convertCurrency_js_def keys_def get_def)
  then have "convertCurrency_js ?R (Some ?q) ''USD'' ''INR'' = round64 (?q * 49)" .
  also note round64_49th_times
  finally have again: "convertCurrency_js ?R (Some ?q) ''USD'' ''INR'' = Some ?p" .
  have normal: "\<forall>r. ''INR'' \<noteq> ''USD'' \<longrightarrow> map_of ?R ''INR'' = Some r \<longrightarrow>
            (1 / r = 0 \<or> 2 powi (- 1022) \<le> \<bar>1 / r\<bar>)
            \<and> (?q * r = 0 \<or> 2 powi (- 1022) \<le> \<bar>?q * r\<bar>)"
    by (simp add: power_int_minus field_simps)
  from inst there again normal have bound: "\<bar>?p - 1\<bar> \<le> (2 / 2 ^ 53 + 1 / 2 ^ 106) * \<bar>1 :: real\<bar>"
    by blast
  from inst have exact: "convertCurrency ?R (convertCurrency ?R 1 ''INR'' ''USD'') ''USD'' ''INR'' = 1"
    by (rule conjunct1)
  from there again bound exact show ?thesis
    by (intro conjI)
qed

subsection \<open>Conversion: no division by zero\<close>



subsection \<open>The summary\<close>

lemma foldl_plus: "foldl (\<lambda>sum entry. sum + f entry) a xs = a + sum_list (map f xs)"
  for a :: real
  by (induction xs arbitrary: a) simp_all

text \<open>
  Claim C5. For every entry list, display currency and rate table, the balance of the
  summary is its total income minus its total expenses, the total income is the sum of
  the converted amounts of the entries of type \<open>income\<close>, and the total expenses the sum
  of the converted amounts of the entries of type \<open>expense\<close>.
\<close>

theorem summary_balance:
  "balance (summary es cur exchangeRates)
     = totalIncome (summary es cur exchangeRates) - totalExpenses (summary es cur exchangeRates)
   \<and> totalIncome (summary es cur exchangeRates)
     = (\<Sum>e \<leftarrow> filter (\<lambda>e. type_e e = ''income'') es.
          convertCurrency exchangeRates (amount_e e) (or_default (currency_e e) cur) cur)
   \<and> totalExpenses (summary es cur exchangeRates)
     = (\<Sum>e \<leftarrow> filter (\<lambda>e. type_e e = ''expense'') es.
          convertCurrency exchangeRates (amount_e e) (or_default (currency_e e) cur) cur)"
  by (simp add: summary_def Let_def foldl_plus)

theorem summary_balance_witness:
  "totalIncome (summary [salary, groceries] ''EUR'' [(''USD'', 1), (''EUR'', 9/10)]) = 900
   \<and> totalExpenses (summary [salary, groceries] ''EUR'' [(''USD'', 1), (''EUR'', 9/10)]) = 200
   \<and> balance (summary [salary, groceries] ''EUR'' [(''USD'', 1), (''EUR'', 9/10)]) = 700"
proof -
  let ?R = "[(''USD'', 1), (''EUR'', 9/10 :: real)]"
  note sums = summary_balance [of "[salary, groceries]" "''EUR''" ?R]
  have usd: "convertCurrency ?R 1000 ''USD'' ''EUR'' = 900"
    by (simp add: convertCurrency_def keys_def)
  have eur: "convertCurrency ?R 200 ''EUR'' ''EUR'' = 200"
    by (simp add: convertCurrency_def)
  from sums usd have income: "totalIncome (summary [salary, groceries] ''EUR'' ?R) = 900"
    by (simp add: salary_def groceries_def or_default_def)
  from sums eur have expenses: "totalExpenses (summary [salary, groceries] ''EUR'' ?R) = 200"
    by (simp add: salary_def groceries_def or_default_def)
  from sums have "balance (summary [salary, groceries] ''EUR'' ?R)
      = totalIncome (summary [salary, groceries] ''EUR'' ?R)
        - totalExpenses (summary [salary, groceries] ''EUR'' ?R)"
    by (rule conjunct1)
  then have "balance (summary [salary, groceries] ''EUR'' ?R) = 700"
    unfolding income expenses by simp
  with income expenses show ?thesis
    by blast
qed

subsection \<open>Deleting an entry\<close>

text \<open>
  Claim C6. A confirmed delete leaves the entries whose id is not the given one, in their
  order, and none with the given id; the rest of the state is as before. When no entry
  has the given id the state is unchanged. A delete that is not confirmed changes
  nothing.
\<close>

theorem handleDeleteEntry_removes:
  "entries (handleDeleteEntry True i s) = filter (\<lambda>e. id_e e \<noteq> i) (entries s)
   \<and> (\<forall>e \<in> set (entries (handleDeleteEntry True i s)). id_e e \<noteq> i)
   \<and> editingId (handleDeleteEntry True i s) = editingId s
   \<and> formValues (handleDeleteEntry True i s) = formValues s
   \<and> currency (handleDeleteEntry True i s) = currency s
   \<and> ((\<forall>e \<in> set (entries s). id_e e \<noteq> i) \<longrightarrow> handleDeleteEntry True i s = s)
   \<and> handleDeleteEntry False i s = s"
proof -
  have "filter (\<lambda>e. id_e e \<noteq> i) (entries s) = entries s" if "\<forall>e \<in> set (entries s). id_e e \<noteq> i"
    using that by (simp add: filter_id_conv)
  then show ?thesis
    by (simp add: handleDeleteEntry_def)
qed

theorem handleDeleteEntry_removes_witness:
  "entries (handleDeleteEntry True 1 sample_state) = [groceries]
   \<and> handleDeleteEntry True 7 sample_state = sample_state
   \<and> handleDeleteEntry False 1 sample_state = sample_state"
proof -
  have "entries (handleDeleteEntry True 1 sample_state) = [groceries]"
    using handleDeleteEntry_removes [of 1 sample_state]
    by (simp add: sample_state_def salary_def groceries_def)
  moreover have "\<forall>e \<in> set (entries sample_state). id_e e \<noteq> 7"
    by (simp add: sample_state_def salary_def groceries_def)
  with handleDeleteEntry_removes [of 7 sample_state]
  have "handleDeleteEntry True 7 sample_state = sample_state"
    by blast
  moreover have "handleDeleteEntry False 1 sample_state = sample_state"
    using handleDeleteEntry_removes [of 1 sample_state] by blast
  ultimately show ?thesis by blast
qed

subsection \<open>Submitting the form\<close>

text \<open>
  Claim C7. In edit mode, with a form that passes the validation, the submission replaces
  the type, the label (trimmed), the amount, the category and the currency of every entry
  whose id is \<open>editingId\<close> and leaves every other entry as it is, position by position;
  the length of the list, the ids and the dates are unchanged, and \<open>editingId\<close> becomes
  \<open>None\<close>.
\<close>

theorem handleSubmit_edit:
  assumes "editingId s = Some k"
    and "parseFloat (amount_f (formValues s)) = Some x" and "\<not> x < 0"
    and "trim (label_f (formValues s)) \<noteq> []" and "category_f (formValues s) \<noteq> []"
  shows "length (entries (handleSubmit parseFloat now isoNow s)) = length (entries s)
     \<and> (\<forall>n < length (entries s).
          entries (handleSubmit parseFloat now isoNow s) ! n =
            (if id_e (entries s ! n) = k
             then (entries s ! n)\<lparr>type_e := type_f (formValues s),
                                  label_e := trim (label_f (formValues s)),
                                  amount_e := x,
                                  category_e := category_f (formValues s),
                                  currency_e := Some (entryCurrency (formValues s))\<rparr>
             else entries s ! n))
     \<and> map id_e (entries (handleSubmit parseFloat now isoNow s)) = map id_e (entries s)
     \<and> map date_e (entries (handleSubmit parseFloat now isoNow s)) = map date_e (entries s)
     \<and> editingId (handleSubmit parseFloat now isoNow s) = None"
  using assms by (simp add: handleSubmit_def resetForm_def)

theorem handleSubmit_edit_witness:
  "editingId sample_state = Some 2
   \<and> sample_parseFloat (amount_f (formValues sample_state)) = Some (25/2)
   \<and> trim (label_f (formValues sample_state)) = ''Lunch''
   \<and> category_f (formValues sample_state) = ''food''
   \<and> length (entries (handleSubmit sample_parseFloat 1700000000000 ''2023-11-14T22:13:20.000Z''
        sample_state)) = 2
   \<and> entries (handleSubmit sample_parseFloat 1700000000000 ''2023-11-14T22:13:20.000Z''
        sample_state) ! 0 = salary
   \<and> entries (handleSubmit sample_parseFloat 1700000000000 ''2023-11-14T22:13:20.000Z''
        sample_state) ! 1
       = \<lparr>id_e = 2, type_e = ''expense'', label_e = ''Lunch'', amount_e = 25/2,
          category_e = ''food'', currency_e = Some ''GBP'',
          date_e = ''2024-01-02T09:00:00.000Z''\<rparr>
   \<and> editingId (handleSubmit sample_parseFloat 1700000000000 ''2023-11-14T22:13:20.000Z''
        sample_state) = None"
proof -
  let ?s' = "handleSubmit sample_parseFloat 1700000000000 ''2023-11-14T22:13:20.000Z'' sample_state"
  have h1: "editingId sample_state = Some 2"
    by (simp add: sample_state_def)
  have h2: "sample_parseFloat (amount_f (formValues sample_state)) = Some (25/2)"
    by (simp add: sample_state_def sample_parseFloat_def)
  have h3: "\<not> (25/2 :: real) < 0"
    by simp
  have l: "trim (label_f (formValues sample_state)) = ''Lunch''"
    by (simp add: sample_state_def trim_def isWhiteSpace_def)
  then have h4: "trim (label_f (formValues sample_state)) \<noteq> []"
    by simp
  have c: "category_f (formValues sample_state) = ''food''"
    by (simp add: sample_state_def)
  then have h5: "category_f (formValues sample_state) \<noteq> []"
    by simp
  note edit = handleSubmit_edit [where parseFloat = sample_parseFloat and s = sample_state
      and k = 2 and x = "25/2" and now = 1700000000000 and isoNow = "''2023-11-14T22:13:20.000Z''",
      OF h1 h2 h3 h4 h5]
  note nth = edit [THEN conjunct2, THEN conjunct1, rule_format]
  from edit have len: "length (entries ?s') = 2"
    by (simp add: sample_state_def)
  have e0: "entries ?s' ! 0 = salary"
    using nth [of 0] by (simp add: sample_state_def salary_def)
  have e1: "entries ?s' ! 1 = \<lparr>id_e = 2, type_e = ''expense'', label_e = ''Lunch'',
          amount_e = 25/2, category_e = ''food'', currency_e = Some ''GBP'',
          date_e = ''2024-01-02T09:00:00.000Z''\<rparr>"
    using nth [of 1] l by (simp add: sample_state_def groceries_def)
  from edit have ed: "editingId ?s' = None"
    by blast
  from h1 h2 l c len e0 e1 ed show ?thesis
    by blast
qed

text \<open>
  Claim C8. When the amount does not parse as a number, or parses as a negative number, or
  the label is blank after trimming, or the category is empty, the submission returns the
  state as it is: the entries, \<open>editingId\<close> and the form are unchanged. The handler is
  total: no error is raised.
\<close>

theorem handleSubmit_invalid:
  assumes "parseFloat (amount_f (formValues s)) = None
         \<or> (\<exists>x. parseFloat (amount_f (formValues s)) = Some x \<and> x < 0)
         \<or> trim (label_f (formValues s)) = []
         \<or> category_f (formValues s) = []"
  shows "handleSubmit parseFloat now isoNow s = s"
  using assms by (auto simp: handleSubmit_def split: option.splits)

theorem handleSubmit_invalid_witness:
  "sample_parseFloat ''abc'' = None
   \<and> handleSubmit sample_parseFloat 1700000000000 ''2023-11-14T22:13:20.000Z''
        (handleFormChange ''entryAmount'' ''abc'' sample_state)
       = handleFormChange ''entryAmount'' ''abc'' sample_state
   \<and> sample_parseFloat ''-3'' = Some (-3)
   \<and> handleSubmit sample_parseFloat 1700000000000 ''2023-11-14T22:13:20.000Z''
        (handleFormChange ''entryAmount'' ''-3'' sample_state)
       = handleFormChange ''entryAmount'' ''-3'' sample_state
   \<and> trim ''   '' = []
   \<and> handleSubmit sample_parseFloat 1700000000000 ''2023-11-14T22:13:20.000Z''
        (handleFormChange ''entryLabel'' ''   '' sample_state)
       = handleFormChange ''entryLabel'' ''   '' sample_state
   \<and> handleSubmit sample_parseFloat 1700000000000 ''2023-11-14T22:13:20.000Z''
        (handleFormChange ''entryCategory'' [] sample_state)
       = handleFormChange ''entryCategory'' [] sample_state"
proof -
  let ?submit = "handleSubmit sample_parseFloat 1700000000000 ''2023-11-14T22:13:20.000Z''"
  have nan: "sample_parseFloat ''abc'' = None" and neg: "sample_parseFloat ''-3'' = Some (-3)"
    by (simp_all add: sample_parseFloat_def)
  have blank: "trim ''   '' = []"
    by (simp add: trim_def isWhiteSpace_def)
  have "sample_parseFloat (amount_f (formValues (handleFormChange ''entryAmount'' ''abc'' sample_state))) = None"
    using nan by (simp add: handleFormChange_def)
  then have 1: "?submit (handleFormChange ''entryAmount'' ''abc'' sample_state)
       = handleFormChange ''entryAmount'' ''abc'' sample_state"
    by (intro handleSubmit_invalid disjI1)
  have "\<exists>x. sample_parseFloat (amount_f (formValues (handleFormChange ''entryAmount'' ''-3'' sample_state))) = Some x \<and> x < 0"
    using neg by (simp add: handleFormChange_def)
  then have 2: "?submit (handleFormChange ''entryAmount'' ''-3'' sample_state)
       = handleFormChange ''entryAmount'' ''-3'' sample_state"
    by (intro handleSubmit_invalid disjI2 disjI1)
  have "trim (label_f (formValues (handleFormChange ''entryLabel'' ''   '' sample_state))) = []"
    using blank by (simp add: handleFormChange_def)
  then have 3: "?submit (handleFormChange ''entryLabel'' ''   '' sample_state)
       = handleFormChange ''entryLabel'' ''   '' sample_state"
    by (intro handleSubmit_invalid disjI2 disjI1)
  have "category_f (formValues (handleFormChange ''entryCategory'' [] sample_state)) = []"
    by (simp add: handleFormChange_def)
  then have 4: "?submit (handleFormChange ''entryCategory'' [] sample_state)
       = handleFormChange ''entryCategory'' [] sample_state"
    by (intro handleSubmit_invalid disjI2)
  from nan neg blank 1 2 3 4 show ?thesis
    by blast
qed

subsection \<open>The invariant of the entries\<close>

lemma dropWhile_rev_dropWhile:
  "dropWhile P (rev (dropWhile P (rev (dropWhile P s)))) = rev (dropWhile P (rev (dropWhile P s)))"
proof (cases "dropWhile P s = []")
  case True
  show ?thesis unfolding True by simp
next
  case False
  let ?t = "dropWhile P s"
  let ?u = "dropWhile P (rev ?t)"
  from False have front: "\<not> P (hd ?t)"
    by (rule hd_dropWhile)
  from False have "last (rev ?t) = hd ?t" and in_rev: "hd ?t \<in> set (rev ?t)"
    by (simp_all add: last_rev)
  with front have "last ?u = hd ?t"
    by (simp add: dropWhile_last)
  moreover from front in_rev have "?u \<noteq> []"
    by (auto simp: dropWhile_eq_Nil_conv)
  ultimately have "hd (rev ?u) = hd ?t" and "rev ?u \<noteq> []"
    by (simp_all add: hd_rev)
  with front show ?thesis
    by (simp add: dropWhile_eq_self_iff)
qed

lemma trim_trim: "trim (trim s) = trim s"
  unfolding trim_def
  by (simp add: dropWhile_rev_dropWhile)

lemma entries_handleSubmit:
  assumes "e \<in> set (entries (handleSubmit parseFloat now isoNow s))"
  shows "e \<in> set (entries s) \<or> (entry_ok e \<and> trim (label_e e) = label_e e)"
proof (cases "handleSubmit parseFloat now isoNow s = s")
  case True
  with assms show ?thesis by simp
next
  case False
  then obtain x where x: "parseFloat (amount_f (formValues s)) = Some x" "0 \<le> x"
    and l: "trim (label_f (formValues s)) \<noteq> []" and c: "category_f (formValues s) \<noteq> []"
    by (auto simp: handleSubmit_def split: option.splits if_splits)
  show ?thesis
  proof (cases "editingId s")
    case None
    with assms x l c show ?thesis
      by (auto simp: handleSubmit_def resetForm_def entry_ok_def trim_trim)
  next
    case (Some k)
    with assms x l c show ?thesis
      by (auto simp: handleSubmit_def resetForm_def entry_ok_def trim_trim)
  qed
qed

lemma entries_step:
  assumes "e \<in> set (entries (step parseFloat toString s ev))"
  shows "e \<in> set (entries s) \<or> (entry_ok e \<and> trim (label_e e) = label_e e)"
proof (cases ev)
  case (FormChange ident v)
  with assms show ?thesis by (simp add: handleFormChange_def split: if_splits)
next
  case (Submit now isoNow)
  with assms show ?thesis by (simp add: entries_handleSubmit)
next
  case (EditEntry ident)
  with assms show ?thesis by (simp add: handleEditEntry_def split: option.splits)
next
  case CancelEdit
  with assms show ?thesis by (simp add: handleCancelEdit_def resetForm_def)
next
  case (DeleteEntry confirmed ident)
  with assms show ?thesis by (simp add: handleDeleteEntry_def split: if_splits)
qed

lemma entries_run:
  assumes "\<forall>e \<in> set (entries s). entry_ok e"
  shows "\<forall>e \<in> set (entries (run parseFloat toString s evs)). entry_ok e"
  using assms
proof (induction evs arbitrary: s)
  case Nil
  then show ?case by (simp add: run_def)
next
  case (Cons ev evs)
  from Cons.prems have "\<forall>e \<in> set (entries (step parseFloat toString s ev)). entry_ok e"
    using entries_step by blast
  then have "\<forall>e \<in> set (entries (run parseFloat toString (step parseFloat toString s ev) evs)). entry_ok e"
    by (rule Cons.IH)
  then show ?case by (simp add: run_def)
qed

text \<open>
  Claim C9. After any operation (a change of the form, a submission that creates or edits,
  the start of an edit, its cancellation, a delete) every entry of the list is an entry
  of the list before, or satisfies the invariant of the data model with a label that is
  its own trimming: the amount is not negative, the label is not blank, the category is
  not empty. Hence a list whose entries all satisfy the invariant still does after any
  run of operations.
\<close>

theorem entry_invariant:
  "(\<forall>e \<in> set (entries (step parseFloat toString s ev)).
      e \<in> set (entries s) \<or> (entry_ok e \<and> trim (label_e e) = label_e e))
   \<and> ((\<forall>e \<in> set (entries s). entry_ok e)
      \<longrightarrow> (\<forall>e \<in> set (entries (run parseFloat toString s evs)). entry_ok e))"
  using entries_step entries_run by blast

lemma session_entries:
  "entries (run sample_parseFloat sample_toString sample_state session)
    = [groceries\<lparr>amount_e := 25/2\<rparr>,
       \<lparr>id_e = 1700000000000, type_e = ''expense'', label_e = ''Lunch'', amount_e = 25/2,
        category_e = ''food'', currency_e = Some ''USD'',
        date_e = ''2023-11-14T22:13:20.000Z''\<rparr>]"
  by (simp add: run_def session_def sample_state_def sample_parseFloat_def sample_toString_def
      salary_def groceries_def handleSubmit_def handleFormChange_def handleEditEntry_def
      handleCancelEdit_def handleDeleteEntry_def resetForm_def trim_def isWhiteSpace_def
      or_default_def)

theorem entry_invariant_witness:
  "list_all entry_ok (entries sample_state)
   \<and> list_all entry_ok (entries (run sample_parseFloat sample_toString sample_state session))
   \<and> entries (run sample_parseFloat sample_toString sample_state session)
    = [groceries\<lparr>amount_e := 25/2\<rparr>,
       \<lparr>id_e = 1700000000000, type_e = ''expense'', label_e = ''Lunch'', amount_e = 25/2,
        category_e = ''food'', currency_e = Some ''USD'',
        date_e = ''2023-11-14T22:13:20.000Z''\<rparr>]"
proof -
  have ok: "\<forall>e \<in> set (entries sample_state). entry_ok e"
    by (simp add: sample_state_def salary_def groceries_def entry_ok_def trim_def
        isWhiteSpace_def)
  with entry_invariant [of sample_parseFloat sample_toString sample_state CancelEdit session]
  have "\<forall>e \<in> set (entries (run sample_parseFloat sample_toString sample_state session)). entry_ok e"
    by blast
  with ok session_entries show ?thesis
    by (simp only: list_all_iff simp_thms)
qed

end
